theory Spec2Isabelle
  imports Main
begin

section \<open>River water quality dashboard: the data loader and the two callbacks\<close>

text \<open>
  The development embeds \<^verbatim>\<open>dashboard.py\<close>: the schema table \<^verbatim>\<open>custom_variables\<close>,
  the loader \<^verbatim>\<open>load_data\<close> and the callbacks \<^verbatim>\<open>update_parameter_options\<close> and
  \<^verbatim>\<open>update_content\<close>. Exceptions are values of \<open>py_error\<close>, the file system and the
  console are fields of an explicit \<open>world\<close>, and what pandas computes on single cells
  and on time buckets is a parameter of the model (the record \<open>pandas\<close>).
\<close>

subsection \<open>Exceptions\<close>

text \<open>
  \<open>ValueError\<close> carries which of the three ValueErrors it is: pandas' usecols check (with
  the missing names), tuple unpacking (expected and actual length), and
  \<^verbatim>\<open>reset_index\<close> finding the index name among the columns.
\<close>

datatype value_error =
    UsecolsMismatch "string list"
  | Unpack nat nat
  | CannotInsert string

datatype py_error =
    FileNotFoundError string
  | KeyError string
  | ValueError value_error
  | AttributeError string

definition sum_bind :: "'e + 'a \<Rightarrow> ('a \<Rightarrow> 'e + 'b) \<Rightarrow> 'e + 'b" where
  "sum_bind r f = (case r of Inl e \<Rightarrow> Inl e | Inr v \<Rightarrow> f v)"

subsection \<open>The schema table\<close>

definition custom_variables :: "(string \<times> (string \<times> string list) list) list" where
  "custom_variables =
    [(''KualaSG'',
        [(''raw'', [''time'', ''PH_Sensor'', ''ORP_Sensor'', ''TR_Sensor'', ''CT_Sensor'',
                    ''TDS_Sensor'', ''NH_SEnsor'', ''DO_Sensor'', ''COD_Sensor'', ''BOD_Sensor'']),
         (''cleaned'', [''Timestamp'', ''PH_Sensor'', ''ORP_Sensor'', ''TR_Sensor'', ''CT_Sensor'',
                        ''DO_Sensor''])]),
     (''Bilut'',
        [(''raw'', [''time'', ''PH_Sensor'', ''ORP_Sensor'', ''CT_Sensor'', ''TDS_Sensor'',
                    ''NH_sensor'', ''COD_Sensor'', ''DO_Sensor'', ''BOD_Sensor'', ''TR_Sensor'']),
         (''cleaned'', [''Timestamp'', ''PH_Sensor'', ''ORP_Sensor'', ''CT_Sensor'', ''TDS_Sensor'',
                        ''NH_sensor'', ''TR_Sensor''])]),
     (''Kechau'',
        [(''raw'', [''time'', ''Ph_Sensor'', ''ORP_Sensor'', ''CT_Sensor'', ''TDS_Sensor'',
                    ''NH_Sensor'', ''DO_Sensor'', ''TR_Sensor'', ''BOD_Sensor'', ''COD_Sensor'']),
         (''cleaned'', [''Timestamp'', ''ORP_Sensor'', ''CT_Sensor'', ''TDS_Sensor'',
                        ''NH_Sensor''])])]"

text \<open>\<^verbatim>\<open>d[k]\<close> on a dict: a missing key raises KeyError.\<close>

definition dict_get :: "(string \<times> 'v) list \<Rightarrow> string \<Rightarrow> py_error + 'v" where
  "dict_get d k = (case map_of d k of None \<Rightarrow> Inl (KeyError k) | Some v \<Rightarrow> Inr v)"

text \<open>\<^verbatim>\<open>custom_variables[river][dataset]\<close>\<close>

definition schema_columns :: "string \<Rightarrow> string \<Rightarrow> py_error + string list" where
  "schema_columns river dataset =
     sum_bind (dict_get custom_variables river) (\<lambda>schemas. dict_get schemas dataset)"

subsection \<open>Strings: \<^verbatim>\<open>str.lower\<close> and \<^verbatim>\<open>in\<close>\<close>

text \<open>
  \<^verbatim>\<open>str.lower\<close> on ASCII letters (every declared column name is ASCII), and the
  substring test \<^verbatim>\<open>sub in s\<close>.
\<close>

definition lower_char :: "char \<Rightarrow> char" where
  "lower_char c =
     (case map_of (zip ''ABCDEFGHIJKLMNOPQRSTUVWXYZ'' ''abcdefghijklmnopqrstuvwxyz'') c of
        None \<Rightarrow> c
      | Some l \<Rightarrow> l)"

definition lower :: "string \<Rightarrow> string" where
  "lower s = map lower_char s"

fun starts_with :: "string \<Rightarrow> string \<Rightarrow> bool" where
  "starts_with [] s = True"
| "starts_with (p # ps) [] = False"
| "starts_with (p # ps) (c # cs) = (p = c \<and> starts_with ps cs)"

fun contains :: "string \<Rightarrow> string \<Rightarrow> bool" where
  "contains sub [] = (sub = [])"
| "contains sub (c # cs) = (starts_with sub (c # cs) \<or> contains sub cs)"

text \<open>The test of line 37: \<^verbatim>\<open>'time' in col.lower()\<close>.\<close>

definition time_like :: "string \<Rightarrow> bool" where
  "time_like col = contains ''time'' (lower col)"

subsection \<open>The parameter callback\<close>

text \<open>
  A dropdown option \<^verbatim>\<open>{"label": p, "value": p}\<close> is the pair (label, value).
  \<^verbatim>\<open>xs[1:]\<close> is \<open>drop 1\<close>: a slice never raises.
\<close>

definition update_parameter_options :: "string \<Rightarrow> string \<Rightarrow> py_error + (string \<times> string) list" where
  "update_parameter_options selected_river selected_dataset =
     sum_bind (schema_columns selected_river selected_dataset)
       (\<lambda>cols. let parameters = drop 1 cols in Inr (map (\<lambda>param. (param, param)) parameters))"

subsection \<open>Tables\<close>

text \<open>
  A cell is the text of a CSV field as read, or the value a coercion put there: a
  time stamp, a number, or one of the two missing values \<open>NaT\<close> and \<open>NaN\<close>.
  A \<open>table\<close> is a DataFrame with the default index, as \<^verbatim>\<open>read_csv\<close> returns it: its
  columns in order, each with its name. A \<open>frame\<close> is a DataFrame after
  \<^verbatim>\<open>set_index\<close>: the index has a name and its own values, and is no longer a column.
\<close>

datatype ('t, 'n) cell = Text string | Stamp 't | Num 'n | NaT | NaN

type_synonym ('t, 'n) table = "(string \<times> ('t, 'n) cell list) list"

record ('t, 'n) frame =
  index_name :: string
  index_vals :: "('t, 'n) cell list"
  columns :: "('t, 'n) table"

text \<open>
  What the source takes from pandas and does not define: the two scalar parsers behind
  \<^verbatim>\<open>to_datetime\<close> and \<^verbatim>\<open>to_numeric\<close> (\<open>None\<close> for a text that does not parse), and
  \<^verbatim>\<open>df.resample(rule).mean(numeric_only=True)\<close>.
\<close>

record ('t, 'n) pandas =
  parse_datetime :: "string \<Rightarrow> 't option"
  parse_numeric :: "string \<Rightarrow> 'n option"
  resample_mean :: "string \<Rightarrow> ('t, 'n) frame \<Rightarrow> ('t, 'n) frame"

text \<open>
  \<^verbatim>\<open>pd.to_datetime(s, errors='coerce')\<close> and \<^verbatim>\<open>pd.to_numeric(s, errors='coerce')\<close>:
  a text that does not parse becomes the missing value instead of raising. The loader
  only ever passes columns of text; a cell that already holds a value is left as it is.
\<close>

fun datetime_cell :: "('t, 'n) pandas \<Rightarrow> ('t, 'n) cell \<Rightarrow> ('t, 'n) cell" where
  "datetime_cell L (Text s) = (case parse_datetime L s of None \<Rightarrow> NaT | Some t \<Rightarrow> Stamp t)"
| "datetime_cell L c = c"

fun numeric_cell :: "('t, 'n) pandas \<Rightarrow> ('t, 'n) cell \<Rightarrow> ('t, 'n) cell" where
  "numeric_cell L (Text s) = (case parse_numeric L s of None \<Rightarrow> NaN | Some n \<Rightarrow> Num n)"
| "numeric_cell L c = c"

definition to_datetime_coerce :: "('t, 'n) pandas \<Rightarrow> ('t, 'n) cell list \<Rightarrow> ('t, 'n) cell list" where
  "to_datetime_coerce L s = map (datetime_cell L) s"

definition to_numeric_coerce :: "('t, 'n) pandas \<Rightarrow> ('t, 'n) cell list \<Rightarrow> ('t, 'n) cell list" where
  "to_numeric_coerce L s = map (numeric_cell L) s"

text \<open>\<^verbatim>\<open>df[c]\<close> raises KeyError for an unknown column; \<^verbatim>\<open>df[c] = s\<close> replaces the
  column in place, or appends a new one.\<close>

definition getitem :: "('t, 'n) table \<Rightarrow> string \<Rightarrow> py_error + ('t, 'n) cell list" where
  "getitem df c = (case map_of df c of None \<Rightarrow> Inl (KeyError c) | Some s \<Rightarrow> Inr s)"

definition setitem :: "('t, 'n) table \<Rightarrow> string \<Rightarrow> ('t, 'n) cell list \<Rightarrow> ('t, 'n) table" where
  "setitem df c s =
     (if c \<in> set (map fst df) then map (\<lambda>(name, v). if name = c then (name, s) else (name, v)) df
      else df @ [(c, s)])"

text \<open>\<^verbatim>\<open>df.rename(columns=mapping)\<close>: a name that is a key of the mapping is replaced.\<close>

definition rename :: "('t, 'n) table \<Rightarrow> (string \<times> string) list \<Rightarrow> ('t, 'n) table" where
  "rename df mapping =
     map (\<lambda>(name, v). (case map_of mapping name of None \<Rightarrow> name | Some new \<Rightarrow> new, v)) df"

text \<open>\<^verbatim>\<open>df.set_index(key)\<close>: the column becomes the index and leaves the columns.\<close>

definition set_index :: "('t, 'n) table \<Rightarrow> string \<Rightarrow> py_error + ('t, 'n) frame" where
  "set_index df key =
     (case map_of df key of
        None \<Rightarrow> Inl (KeyError key)
      | Some s \<Rightarrow> Inr \<lparr>index_name = key, index_vals = s,
                       columns = filter (\<lambda>(name, v). name \<noteq> key) df\<rparr>)"

text \<open>\<^verbatim>\<open>df.reset_index()\<close>: the index comes back as the first column; pandas refuses
  when a column of that name is already there.\<close>

definition reset_index :: "('t, 'n) frame \<Rightarrow> py_error + ('t, 'n) table" where
  "reset_index df =
     (if index_name df \<in> set (map fst (columns df))
      then Inl (ValueError (CannotInsert (index_name df)))
      else Inr ((index_name df, index_vals df) # columns df))"

text \<open>\<^verbatim>\<open>df.to_dict("records")\<close>: one dict per row, keyed by column name. The number of
  rows is the common length of the columns.\<close>

definition nrows :: "('t, 'n) table \<Rightarrow> nat" where
  "nrows df = (case df of [] \<Rightarrow> 0 | (name, v) # rest \<Rightarrow> length v)"

definition to_dict_records :: "('t, 'n) table \<Rightarrow> (string \<times> ('t, 'n) cell) list list" where
  "to_dict_records df = map (\<lambda>i. map (\<lambda>(name, v). (name, v ! i)) df) [0 ..< nrows df]"

subsection \<open>The world: files and console\<close>

text \<open>
  A CSV file is given by its columns in file order: the header name and the fields as
  text (header names as pandas sees them, so distinct). \<open>files\<close> maps a path to the
  file there, \<open>stdout\<close> is what \<^verbatim>\<open>print\<close> has written, and \<open>opened\<close> logs every path
  handed to \<^verbatim>\<open>read_csv\<close>, so that "the loader was not invoked" is a statement about
  the world.
\<close>

type_synonym csv = "(string \<times> string list) list"

record world =
  files :: "string \<Rightarrow> csv option"
  stdout :: "string list"
  opened :: "string list"

definition print :: "string \<Rightarrow> world \<Rightarrow> world" where
  "print line w = w\<lparr>stdout := stdout w @ [line]\<rparr>"

text \<open>
  \<^verbatim>\<open>pd.read_csv(path, usecols=names)\<close>: FileNotFoundError when there is no file,
  ValueError when a requested name is not in the header; otherwise the requested
  columns in the order of the file.
\<close>

definition read_csv :: "world \<Rightarrow> string \<Rightarrow> string list \<Rightarrow> (py_error + ('t, 'n) table) \<times> world" where
  "read_csv w path usecols =
     (let w' = w\<lparr>opened := opened w @ [path]\<rparr> in
      case files w path of
        None \<Rightarrow> (Inl (FileNotFoundError path), w')
      | Some csv \<Rightarrow>
          (let missing = filter (\<lambda>c. c \<notin> set (map fst csv)) usecols in
           if missing \<noteq> [] then (Inl (ValueError (UsecolsMismatch missing)), w')
           else (Inr (map (\<lambda>(name, v). (name, map Text v))
                        (filter (\<lambda>(name, v). name \<in> set usecols) csv)), w')))"

subsection \<open>The loader\<close>

text \<open>Lines 28 to 30, the body of the \<^verbatim>\<open>try\<close>: the raw file is read first, and the
  cleaned file only when that succeeded.\<close>

definition load_data_try ::
  "world \<Rightarrow> string \<Rightarrow> (py_error + ('t, 'n) table \<times> ('t, 'n) table) \<times> world" where
  "load_data_try w river =
     (let raw_file_path = river @ ''_Raw.csv'';
          cleaned_file_path = river @ ''_Cleaned.csv'' in
      case schema_columns river ''raw'' of
        Inl e \<Rightarrow> (Inl e, w)
      | Inr raw_cols \<Rightarrow>
          (case read_csv w raw_file_path raw_cols of
             (Inl e, w1) \<Rightarrow> (Inl e, w1)
           | (Inr df_raw, w1) \<Rightarrow>
               (case schema_columns river ''cleaned'' of
                  Inl e \<Rightarrow> (Inl e, w1)
                | Inr cleaned_cols \<Rightarrow>
                    (case read_csv w1 cleaned_file_path cleaned_cols of
                       (Inl e, w2) \<Rightarrow> (Inl e, w2)
                     | (Inr df_cleaned, w2) \<Rightarrow> (Inr (df_raw, df_cleaned), w2)))))"

text \<open>The message of the FileNotFoundError, as \<^verbatim>\<open>print(f"Error: {e}")\<close> shows it.\<close>

definition errno2 :: "string \<Rightarrow> string" where
  "errno2 path = ''[Errno 2] No such file or directory: '' @ [CHR 0x27] @ path @ [CHR 0x27]"

text \<open>Line 43 to 46: the inner loop over \<^verbatim>\<open>df.columns\<close>.\<close>

fun numeric_loop ::
  "('t, 'n) pandas \<Rightarrow> string list \<Rightarrow> ('t, 'n) table \<Rightarrow> py_error + ('t, 'n) table" where
  "numeric_loop L [] df = Inr df"
| "numeric_loop L (col # cols) df =
     (if col \<noteq> ''Timestamp''
      then sum_bind (getitem df col)
             (\<lambda>s. numeric_loop L cols (setitem df col (to_numeric_coerce L s)))
      else numeric_loop L cols df)"

text \<open>Lines 52 to 60: the six resampled tables, and the tuple of eight that is
  returned, as a list.\<close>

definition resampled_tuple ::
  "('t, 'n) pandas \<Rightarrow> ('t, 'n) frame \<Rightarrow> ('t, 'n) frame \<Rightarrow> ('t, 'n) frame option list" where
  "resampled_tuple L df_raw df_cleaned =
     (let df_raw_daily = resample_mean L ''D'' df_raw;
          df_raw_weekly = resample_mean L ''W'' df_raw;
          df_raw_monthly = resample_mean L ''ME'' df_raw;
          df_cleaned_daily = resample_mean L ''D'' df_cleaned;
          df_cleaned_weekly = resample_mean L ''W'' df_cleaned;
          df_cleaned_monthly = resample_mean L ''ME'' df_cleaned in
      [Some df_raw, Some df_cleaned, Some df_raw_daily, Some df_raw_weekly, Some df_raw_monthly,
       Some df_cleaned_daily, Some df_cleaned_weekly, Some df_cleaned_monthly])"

text \<open>Lines 37 to 50, after both files were read, followed by the resampling.\<close>

definition load_data_body ::
  "('t, 'n) pandas \<Rightarrow> ('t, 'n) table \<Rightarrow> ('t, 'n) table \<Rightarrow> py_error + ('t, 'n) frame option list" where
  "load_data_body L df_raw0 df_cleaned0 =
     (let df_raw1 = rename df_raw0
                      (map (\<lambda>col. (col, ''Timestamp'')) (filter time_like (map fst df_raw0))) in
      sum_bind (getitem df_raw1 ''Timestamp'') (\<lambda>ts_raw.
      let df_raw2 = setitem df_raw1 ''Timestamp'' (to_datetime_coerce L ts_raw) in
      sum_bind (getitem df_cleaned0 ''Timestamp'') (\<lambda>ts_cleaned.
      let df_cleaned1 = setitem df_cleaned0 ''Timestamp'' (to_datetime_coerce L ts_cleaned) in
      sum_bind (numeric_loop L (map fst df_raw2) df_raw2) (\<lambda>df_raw3.
      sum_bind (numeric_loop L (map fst df_cleaned1) df_cleaned1) (\<lambda>df_cleaned2.
      sum_bind (set_index df_raw3 ''Timestamp'') (\<lambda>df_raw.
      sum_bind (set_index df_cleaned2 ''Timestamp'') (\<lambda>df_cleaned.
      Inr (resampled_tuple L df_raw df_cleaned))))))))"

text \<open>
  \<^verbatim>\<open>load_data\<close>. Only FileNotFoundError is caught: the handler prints two lines and
  returns the pair \<^verbatim>\<open>(None, None)\<close>. Every other exception leaves the function.
\<close>

definition load_data ::
  "('t, 'n) pandas \<Rightarrow> world \<Rightarrow> string \<Rightarrow> (py_error + ('t, 'n) frame option list) \<times> world" where
  "load_data L w river =
     (case load_data_try w river of
        (Inl (FileNotFoundError path), w') \<Rightarrow>
          (Inr [None, None],
           print ''Ensure CSV files are available in the correct directory!''
             (print (''Error: '' @ errno2 path) w'))
      | (Inl e, w') \<Rightarrow> (Inl e, w')
      | (Inr (df_raw, df_cleaned), w') \<Rightarrow> (load_data_body L df_raw df_cleaned, w'))"

subsection \<open>The display callback\<close>

text \<open>
  What a callback returns: a text block, a data table with its records and its column
  descriptions (name, id), a graph, or Python's \<^verbatim>\<open>None\<close> when no branch returns. A figure
  records the plotly call that made it: the table handed over and the selected column.
\<close>

datatype ('t, 'n) figure =
    Histogram "('t, 'n) frame option" "string option"
  | Line "('t, 'n) frame" "('t, 'n) cell list" "string option"

datatype ('t, 'n) component =
    Div string
  | DataTable "(string \<times> ('t, 'n) cell) list list" "(string \<times> string) list"
  | Graph "('t, 'n) figure"
  | PyNone

text \<open>Lines 157 to 167, on the eight unpacked values.\<close>

definition render ::
  "('t, 'n) frame option \<Rightarrow> ('t, 'n) frame option \<Rightarrow> ('t, 'n) frame option \<Rightarrow>
   ('t, 'n) frame option \<Rightarrow> ('t, 'n) frame option \<Rightarrow>
   string \<Rightarrow> string \<Rightarrow> string \<Rightarrow> string option \<Rightarrow> py_error + ('t, 'n) component" where
  "render df_raw df_cleaned df_raw_daily df_raw_weekly df_raw_monthly
          selected_dataset selected_visualization selected_time_range selected_parameter =
     (let df = (if selected_dataset = ''raw'' then df_raw else df_cleaned) in
      sum_bind (dict_get [(''daily'', df_raw_daily), (''weekly'', df_raw_weekly),
                          (''monthly'', df_raw_monthly)] selected_time_range) (\<lambda>df_trend.
      if selected_visualization = ''table'' then
        (case df of
           None \<Rightarrow> Inl (AttributeError ''reset_index'')
         | Some d \<Rightarrow>
             sum_bind (reset_index d) (\<lambda>t.
             Inr (DataTable (to_dict_records t) (map (\<lambda>i. (i, i)) (map fst (columns d))))))
      else if selected_visualization = ''histogram'' then
        Inr (Graph (Histogram df selected_parameter))
      else if selected_visualization = ''trend'' then
        (case df_trend of
           None \<Rightarrow> Inl (AttributeError ''index'')
         | Some t \<Rightarrow> Inr (Graph (Line t (index_vals t) selected_parameter)))
      else Inr PyNone))"

text \<open>Line 156: unpacking into eight names raises ValueError for any other length.\<close>

definition unpack8 :: "'a list \<Rightarrow> py_error + 'a list" where
  "unpack8 tup = (if length tup = 8 then Inr tup else Inl (ValueError (Unpack 8 (length tup))))"

definition update_content ::
  "('t, 'n) pandas \<Rightarrow> world \<Rightarrow> int \<Rightarrow> string \<Rightarrow> string \<Rightarrow> string \<Rightarrow> string \<Rightarrow> string option
   \<Rightarrow> (py_error + ('t, 'n) component) \<times> world" where
  "update_content L w n_clicks selected_river selected_dataset selected_visualization
                  selected_time_range selected_parameter =
     (if n_clicks = 0 then (Inr (Div ''Click 'Display Data' to show the results.''), w)
      else
        (case load_data L w selected_river of
           (Inl e, w') \<Rightarrow> (Inl e, w')
         | (Inr tup, w') \<Rightarrow>
             (sum_bind (unpack8 tup) (\<lambda>vs.
                render (vs ! 0) (vs ! 1) (vs ! 2) (vs ! 3) (vs ! 4)
                       selected_dataset selected_visualization selected_time_range
                       selected_parameter), w')))"

text \<open>Lines 63 and 64, run when the module is loaded: the default river is loaded and
  the result unpacked into eight names.\<close>

definition selected_river :: string where
  "selected_river = ''KualaSG''"

definition module_init ::
  "('t, 'n) pandas \<Rightarrow> world \<Rightarrow> (py_error + ('t, 'n) frame option list) \<times> world" where
  "module_init L w =
     (case load_data L w selected_river of
        (Inl e, w') \<Rightarrow> (Inl e, w')
      | (Inr tup, w') \<Rightarrow> (unpack8 tup, w'))"

subsection \<open>What the loader makes of one file\<close>

text \<open>
  The closed form of lines 29 to 50 for one file: from the columns of the file that are
  in \<open>usecols\<close>, the time column \<open>tcol\<close> (with the texts \<open>ts\<close>) becomes the index
  named Timestamp, cell by cell through the date parser, and every other column stays a
  column, cell by cell through the number parser.
\<close>

definition coerced_frame ::
  "('t, 'n) pandas \<Rightarrow> string list \<Rightarrow> string \<Rightarrow> string list \<Rightarrow> csv \<Rightarrow> ('t, 'n) frame" where
  "coerced_frame L usecols tcol ts csv =
     \<lparr>index_name = ''Timestamp'',
      index_vals = map (\<lambda>s. datetime_cell L (Text s)) ts,
      columns = map (\<lambda>(name, v). (name, map (\<lambda>s. numeric_cell L (Text s)) v))
                  (filter (\<lambda>(name, v). name \<in> set usecols \<and> name \<noteq> tcol) csv)\<rparr>"

subsection \<open>Example inputs\<close>

text \<open>
  A small instance of the library interface, to run the model on example files: time
  stamps are day numbers and three dates parse, numbers are integers and three literals
  parse; every other text fails to parse. The resampling of this instance keeps the rows
  and writes the rule into the index name, so that the six resampled tables of a load
  are told apart; the theorems below hold for every instance.
\<close>

definition example_pandas :: "(nat, int) pandas" where
  "example_pandas =
     \<lparr>parse_datetime = map_of [(''2024-01-01'', 0), (''2024-01-02'', 1), (''2024-01-09'', 8)],
      parse_numeric = map_of [(''7'', 7), (''8'', 8), (''250'', 250)],
      resample_mean = (\<lambda>rule df. df\<lparr>index_name := index_name df @ ''/'' @ rule\<rparr>)\<rparr>"

text \<open>Files for KualaSG: three raw records, the second with a time stamp that is no
  date, a field that is no number and an empty field; two cleaned records.\<close>

definition kuala_raw_csv :: csv where
  "kuala_raw_csv =
     [(''time'', [''2024-01-01'', ''soon'', ''2024-01-09'']),
      (''PH_Sensor'', [''7'', ''8'', ''7'']),
      (''ORP_Sensor'', [''250'', ''n/a'', ''250'']),
      (''TR_Sensor'', [''7'', ''7'', ''8'']),
      (''CT_Sensor'', [''8'', ''8'', ''8'']),
      (''TDS_Sensor'', [''250'', ''250'', ''7'']),
      (''NH_SEnsor'', [''7'', [], ''7'']),
      (''DO_Sensor'', [''8'', ''7'', ''7'']),
      (''COD_Sensor'', [''7'', ''8'', ''8'']),
      (''BOD_Sensor'', [''8'', ''8'', ''7''])]"

definition kuala_cleaned_csv :: csv where
  "kuala_cleaned_csv =
     [(''Timestamp'', [''2024-01-01'', ''2024-01-02'']),
      (''PH_Sensor'', [''7'', ''8'']),
      (''ORP_Sensor'', [''250'', ''250'']),
      (''TR_Sensor'', [''7'', ''x'']),
      (''CT_Sensor'', [''8'', ''8'']),
      (''DO_Sensor'', [''8'', ''7''])]"

definition world_kuala :: world where
  "world_kuala =
     \<lparr>files = map_of [(''KualaSG_Raw.csv'', kuala_raw_csv),
                       (''KualaSG_Cleaned.csv'', kuala_cleaned_csv)],
      stdout = [], opened = []\<rparr>"

text \<open>For Kechau only the raw file is on disk.\<close>

definition kechau_raw_csv :: csv where
  "kechau_raw_csv =
     [(''time'', [''2024-01-01'', ''2024-01-02'']),
      (''Ph_Sensor'', [''7'', ''8'']),
      (''ORP_Sensor'', [''250'', ''250'']),
      (''CT_Sensor'', [''7'', ''7'']),
      (''TDS_Sensor'', [''8'', ''8'']),
      (''NH_Sensor'', [''7'', ''8'']),
      (''DO_Sensor'', [''8'', ''7'']),
      (''TR_Sensor'', [''7'', ''8'']),
      (''BOD_Sensor'', [''7'', ''8'']),
      (''COD_Sensor'', [''8'', ''8''])]"

definition world_kechau_no_cleaned :: world where
  "world_kechau_no_cleaned =
     \<lparr>files = map_of [(''Kechau_Raw.csv'', kechau_raw_csv)], stdout = [], opened = []\<rparr>"

text \<open>A directory without any CSV file.\<close>

definition world_empty :: world where
  "world_empty = \<lparr>files = (\<lambda>path. None), stdout = [], opened = []\<rparr>"

section \<open>Properties\<close>

subsection \<open>Auxiliary facts about the table operations\<close>

lemma sum_bind_Inr [simp]: "sum_bind (Inr v) f = f v"
  by (simp add: sum_bind_def)

lemma sum_bind_Inl [simp]: "sum_bind (Inl e) f = Inl e"
  by (simp add: sum_bind_def)

lemma map_of_const_filter:
  "map_of (map (\<lambda>c. (c, k)) (filter P xs)) c = (if c \<in> set xs \<and> P c then Some k else None)"
  by (induction xs) auto

lemma rename_time:
  assumes "\<forall>c \<in> set (map fst df). time_like c \<longleftrightarrow> c = ''time''"
  shows "rename df (map (\<lambda>col. (col, ''Timestamp'')) (filter time_like (map fst df)))
         = map (\<lambda>(n, v). (if n = ''time'' then ''Timestamp'' else n, v)) df"
  unfolding rename_def
proof (rule map_cong[OF refl])
  fix x assume x: "x \<in> set df"
  obtain n v where nv: "x = (n, v)" by (cases x)
  from x nv have mem: "n \<in> set (map fst df)" by force
  with assms have "time_like n \<longleftrightarrow> n = ''time''" by blast
  with mem nv
  show "(case x of (name, v) \<Rightarrow>
           (case map_of (map (\<lambda>col. (col, ''Timestamp'')) (filter time_like (map fst df))) name of
              None \<Rightarrow> name | Some new \<Rightarrow> new, v))
        = (case x of (n, v) \<Rightarrow> (if n = ''time'' then ''Timestamp'' else n, v))"
    by (simp add: map_of_const_filter)
qed

lemma setitem_existing:
  "c \<in> set (map fst df) \<Longrightarrow>
     setitem df c s = map (\<lambda>(n, v). if n = c then (n, s) else (n, v)) df"
  by (simp add: setitem_def)

lemma names_setitem:
  "c \<in> set (map fst df) \<Longrightarrow> map fst (setitem df c s) = map fst df"
  by (auto simp: setitem_existing split: prod.splits)

lemma getitem_ok: "map_of df c = Some s \<Longrightarrow> getitem df c = Inr s"
  by (simp add: getitem_def)

lemma numeric_loop_gen:
  "distinct cols \<Longrightarrow> set cols \<subseteq> set (map fst df) \<Longrightarrow> distinct (map fst df) \<Longrightarrow>
   numeric_loop L cols df =
     Inr (map (\<lambda>(n, v). if n \<in> set cols \<and> n \<noteq> ''Timestamp''
                         then (n, map (numeric_cell L) v) else (n, v)) df)"
proof (induction cols arbitrary: df)
  case Nil
  then show ?case by (simp add: case_prod_unfold)
next
  case (Cons col cols)
  show ?case
  proof (cases "col = ''Timestamp''")
    case True
    with Cons show ?thesis by (auto intro!: map_cong)
  next
    case False
    from Cons.prems obtain s where s: "map_of df col = Some s"
      by (cases "map_of df col") (auto simp: map_of_eq_None_iff)
    let ?df' = "setitem df col (to_numeric_coerce L s)"
    have mem: "col \<in> set (map fst df)" using Cons.prems by simp
    have names: "map fst ?df' = map fst df" by (rule names_setitem[OF mem])
    have ih: "numeric_loop L cols ?df' =
       Inr (map (\<lambda>(n, v). if n \<in> set cols \<and> n \<noteq> ''Timestamp''
                         then (n, map (numeric_cell L) v) else (n, v)) ?df')"
      using Cons.prems by (intro Cons.IH) (auto simp: names)
    have "map (\<lambda>(n, v). if n \<in> set cols \<and> n \<noteq> ''Timestamp''
                         then (n, map (numeric_cell L) v) else (n, v)) ?df'
        = map (\<lambda>(n, v). if n \<in> set (col # cols) \<and> n \<noteq> ''Timestamp''
                         then (n, map (numeric_cell L) v) else (n, v)) df"
      using Cons.prems s False
      by (auto simp: setitem_existing[OF mem] to_numeric_coerce_def dest: eq_key_imp_eq_value)
    with ih s False show ?thesis by (simp add: getitem_ok)
  qed
qed

lemma numeric_loop_all:
  assumes "distinct (map fst df)"
  shows "numeric_loop L (map fst df) df =
     Inr (map (\<lambda>(n, v). if n \<noteq> ''Timestamp'' then (n, map (numeric_cell L) v) else (n, v)) df)"
proof -
  have "numeric_loop L (map fst df) df =
     Inr (map (\<lambda>(n, v). if n \<in> set (map fst df) \<and> n \<noteq> ''Timestamp''
                         then (n, map (numeric_cell L) v) else (n, v)) df)"
    if "distinct (map fst df)"
    using that by (intro numeric_loop_gen) auto
  moreover have "map (\<lambda>(n, v). if n \<in> set (map fst df) \<and> n \<noteq> ''Timestamp''
                         then (n, map (numeric_cell L) v) else (n, v)) df
     = map (\<lambda>(n, v). if n \<noteq> ''Timestamp'' then (n, map (numeric_cell L) v) else (n, v)) df"
    by (intro map_cong refl) force
  ultimately show ?thesis using assms by simp
qed

lemma set_index_ok:
  "map_of df k = Some s \<Longrightarrow>
   set_index df k = Inr \<lparr>index_name = k, index_vals = s,
                         columns = filter (\<lambda>(n, v). n \<noteq> k) df\<rparr>"
  by (simp add: set_index_def)

text \<open>The three steps applied to one table that has a Timestamp column.\<close>

lemma coerce_steps:
  fixes L :: "('t, 'n) pandas" and df :: "('t, 'n) table"
  assumes d: "distinct (map fst df)" and t: "map_of df ''Timestamp'' = Some ts"
  shows "\<exists>df2. numeric_loop L (map fst (setitem df ''Timestamp'' (to_datetime_coerce L ts)))
                 (setitem df ''Timestamp'' (to_datetime_coerce L ts)) = Inr df2 \<and>
           set_index df2 ''Timestamp'' =
             Inr \<lparr>index_name = ''Timestamp'', index_vals = map (datetime_cell L) ts,
                   columns = map (\<lambda>(n, v). (n, map (numeric_cell L) v))
                               (filter (\<lambda>(n, v). n \<noteq> ''Timestamp'') df)\<rparr>"
proof -
  define df1 where "df1 = setitem df ''Timestamp'' (to_datetime_coerce L ts)"
  have mem: "''Timestamp'' \<in> set (map fst df)"
    using t by (metis map_of_eq_None_iff option.distinct(1) set_map)
  have names: "map fst df1 = map fst df"
    unfolding df1_def by (rule names_setitem[OF mem])
  have df1: "df1 = map (\<lambda>(n, v). if n = ''Timestamp'' then (n, map (datetime_cell L) ts) else (n, v)) df"
    unfolding df1_def by (simp add: setitem_existing[OF mem] to_datetime_coerce_def)
  let ?df2 = "map (\<lambda>(n, v). if n \<noteq> ''Timestamp'' then (n, map (numeric_cell L) v) else (n, v)) df1"
  have loop: "numeric_loop L (map fst df1) df1 = Inr ?df2"
    using d names by (intro numeric_loop_all) simp
  have look: "map_of ?df2 ''Timestamp'' = Some (map (datetime_cell L) ts)"
    using mem unfolding df1 by (induction df) (auto split: if_splits)
  have cols: "filter (\<lambda>(n, v). n \<noteq> ''Timestamp'') ?df2
      = map (\<lambda>(n, v). (n, map (numeric_cell L) v)) (filter (\<lambda>(n, v). n \<noteq> ''Timestamp'') df)"
    unfolding df1 by (induction df) auto
  show ?thesis
    using loop set_index_ok[OF look] cols unfolding df1_def by simp
qed

lemma load_data_body_ok:
  fixes L :: "('t, 'n) pandas" and dfr dfc :: "('t, 'n) table"
  assumes dr: "distinct (map fst dfr)" and tr: "map_of dfr ''time'' = Some ts_r"
    and only: "\<forall>c \<in> set (map fst dfr). time_like c \<longleftrightarrow> c = ''time''"
    and noT: "''Timestamp'' \<notin> set (map fst dfr)"
    and dc: "distinct (map fst dfc)" and tc: "map_of dfc ''Timestamp'' = Some ts_c"
  shows "load_data_body L dfr dfc =
     Inr (resampled_tuple L
       \<lparr>index_name = ''Timestamp'', index_vals = map (datetime_cell L) ts_r,
         columns = map (\<lambda>(n, v). (n, map (numeric_cell L) v))
                       (filter (\<lambda>(n, v). n \<noteq> ''time'') dfr)\<rparr>
       \<lparr>index_name = ''Timestamp'', index_vals = map (datetime_cell L) ts_c,
         columns = map (\<lambda>(n, v). (n, map (numeric_cell L) v))
                       (filter (\<lambda>(n, v). n \<noteq> ''Timestamp'') dfc)\<rparr>)"
proof -
  let ?r1 = "map (\<lambda>(n, v). (if n = ''time'' then ''Timestamp'' else n, v)) dfr"
  have ren: "rename dfr (map (\<lambda>col. (col, ''Timestamp'')) (filter time_like (map fst dfr))) = ?r1"
    by (rule rename_time[OF only])
  have "map fst ?r1 = map (\<lambda>n. if n = ''time'' then ''Timestamp'' else n) (map fst dfr)"
    by (simp add: case_prod_unfold comp_def)
  moreover have "inj_on (\<lambda>n. if n = ''time'' then ''Timestamp'' else n) (set (map fst dfr))"
    using noT by (force simp: inj_on_def split: if_splits)
  ultimately have d1: "distinct (map fst ?r1)"
    using dr by (simp only: distinct_map)
  have t1: "map_of ?r1 ''Timestamp'' = Some ts_r"
    using tr noT by (induction dfr) (auto split: if_splits)
  have f1: "filter (\<lambda>(n, v). n \<noteq> ''Timestamp'') ?r1 = filter (\<lambda>(n, v). n \<noteq> ''time'') dfr"
    using noT by (induction dfr) auto
  note sr = coerce_steps[OF d1 t1, where L = L]
  note sc = coerce_steps[OF dc tc, where L = L]
  note gr = getitem_ok[OF t1]
  note gc = getitem_ok[OF tc]
  from sr obtain r2 where r2: "numeric_loop L
      (map fst (setitem ?r1 ''Timestamp'' (to_datetime_coerce L ts_r)))
      (setitem ?r1 ''Timestamp'' (to_datetime_coerce L ts_r)) = Inr r2"
    and r3: "set_index r2 ''Timestamp'' =
             Inr \<lparr>index_name = ''Timestamp'', index_vals = map (datetime_cell L) ts_r,
                   columns = map (\<lambda>(n, v). (n, map (numeric_cell L) v))
                               (filter (\<lambda>(n, v). n \<noteq> ''Timestamp'') ?r1)\<rparr>"
    by blast
  from sc obtain c2 where c2: "numeric_loop L
      (map fst (setitem dfc ''Timestamp'' (to_datetime_coerce L ts_c)))
      (setitem dfc ''Timestamp'' (to_datetime_coerce L ts_c)) = Inr c2"
    and c3: "set_index c2 ''Timestamp'' =
             Inr \<lparr>index_name = ''Timestamp'', index_vals = map (datetime_cell L) ts_c,
                   columns = map (\<lambda>(n, v). (n, map (numeric_cell L) v))
                               (filter (\<lambda>(n, v). n \<noteq> ''Timestamp'') dfc)\<rparr>"
    by blast
  show ?thesis
    unfolding load_data_body_def ren Let_def
    by (simp only: gr gc r2 c2 r3 c3 f1 sum_bind_Inr)
qed

lemma time_like_names:
  "time_like ''time''" "time_like ''Timestamp''"
  "\<not> time_like ''PH_Sensor''" "\<not> time_like ''Ph_Sensor''" "\<not> time_like ''ORP_Sensor''"
  "\<not> time_like ''TR_Sensor''" "\<not> time_like ''CT_Sensor''" "\<not> time_like ''TDS_Sensor''"
  "\<not> time_like ''NH_SEnsor''" "\<not> time_like ''NH_sensor''" "\<not> time_like ''NH_Sensor''"
  "\<not> time_like ''DO_Sensor''" "\<not> time_like ''COD_Sensor''" "\<not> time_like ''BOD_Sensor''"
  by code_simp+

lemma schema_cases:
  assumes "schema_columns river dataset = Inr cols"
  shows "(river, dataset, cols) \<in>
           set (concat (map (\<lambda>(r, s). map (\<lambda>(d, c). (r, d, c)) s) custom_variables))"
  using assms
  by (simp add: schema_columns_def dict_get_def custom_variables_def sum_bind_def split: if_splits)

lemma raw_schema:
  assumes "schema_columns river ''raw'' = Inr cols"
  shows "''time'' \<in> set cols" and "''Timestamp'' \<notin> set cols"
    and "\<forall>c \<in> set cols. time_like c \<longleftrightarrow> c = ''time''"
  using schema_cases[OF assms]
  by (auto simp: custom_variables_def time_like_names)

lemma cleaned_schema:
  assumes "schema_columns river ''cleaned'' = Inr cols"
  shows "''Timestamp'' \<in> set cols"
    and "\<forall>c \<in> set cols. time_like c \<longleftrightarrow> c = ''Timestamp''"
  using schema_cases[OF assms]
  by (auto simp: custom_variables_def time_like_names)

lemma read_csv_ok:
  assumes "files w path = Some csv" and "set usecols \<subseteq> set (map fst csv)"
  shows "read_csv w path usecols =
           (Inr (map (\<lambda>(name, v). (name, map Text v))
                   (filter (\<lambda>(name, v). name \<in> set usecols) csv)),
            w\<lparr>opened := opened w @ [path]\<rparr>)"
proof -
  have "filter (\<lambda>c. c \<notin> set (map fst csv)) usecols = []"
    using assms(2) by (auto simp: filter_empty_conv)
  with assms(1) show ?thesis by (simp add: read_csv_def)
qed

lemma map_of_selected:
  "map_of (map (\<lambda>(name, v). (name, f v)) (filter (\<lambda>(name, v). P name) xs)) k
     = (if P k then map_option f (map_of xs k) else None)"
  by (induction xs) auto

lemma names_selected:
  "map fst (map (\<lambda>(name, v). (name, f v)) (filter (\<lambda>(name, v). P name) xs))
     = filter P (map fst xs)"
  by (induction xs) auto

lemma columns_selected:
  "map (\<lambda>(n, v). (n, map g v))
     (filter (\<lambda>(n, v). n \<noteq> k) (map (\<lambda>(name, v). (name, map Text v))
        (filter (\<lambda>(name, v). name \<in> S) xs)))
   = map (\<lambda>(name, v). (name, map (\<lambda>s. g (Text s)) v))
       (filter (\<lambda>(name, v). name \<in> S \<and> name \<noteq> k) xs)"
  by (induction xs) auto

lemma load_data_ok:
  fixes L :: "('t, 'n) pandas"
  assumes sr: "schema_columns river ''raw'' = Inr rcols"
    and sc: "schema_columns river ''cleaned'' = Inr ccols"
    and fr: "files w (river @ ''_Raw.csv'') = Some rc"
    and fc: "files w (river @ ''_Cleaned.csv'') = Some cc"
    and ur: "set rcols \<subseteq> set (map fst rc)" and uc: "set ccols \<subseteq> set (map fst cc)"
    and dr: "distinct (map fst rc)" and dc: "distinct (map fst cc)"
  shows "\<exists>ts_r ts_c. map_of rc ''time'' = Some ts_r \<and> map_of cc ''Timestamp'' = Some ts_c \<and>
           load_data L w river =
             (Inr (resampled_tuple L (coerced_frame L rcols ''time'' ts_r rc)
                                     (coerced_frame L ccols ''Timestamp'' ts_c cc)),
              w\<lparr>opened := opened w @ [river @ ''_Raw.csv'', river @ ''_Cleaned.csv'']\<rparr>)"
proof -
  note rs = raw_schema[OF sr] and cs = cleaned_schema[OF sc]
  from rs(1) ur obtain ts_r where tr: "map_of rc ''time'' = Some ts_r"
    by (cases "map_of rc ''time''") (auto simp: map_of_eq_None_iff)
  from cs(1) uc obtain ts_c where tc: "map_of cc ''Timestamp'' = Some ts_c"
    by (cases "map_of cc ''Timestamp''") (auto simp: map_of_eq_None_iff)
  let ?dfr = "map (\<lambda>(name, v). (name, map Text v)) (filter (\<lambda>(name, v). name \<in> set rcols) rc)
                :: ('t, 'n) table"
  let ?dfc = "map (\<lambda>(name, v). (name, map Text v)) (filter (\<lambda>(name, v). name \<in> set ccols) cc)
                :: ('t, 'n) table"
  let ?w1 = "w\<lparr>opened := opened w @ [river @ ''_Raw.csv'']\<rparr>"
  have tried: "load_data_try w river = (Inr (?dfr, ?dfc),
      w\<lparr>opened := opened w @ [river @ ''_Raw.csv'', river @ ''_Cleaned.csv'']\<rparr>)"
  proof -
    have r1: "read_csv w (river @ ''_Raw.csv'') rcols = (Inr ?dfr, ?w1)"
      by (rule read_csv_ok[OF fr ur])
    have "files ?w1 (river @ ''_Cleaned.csv'') = Some cc" using fc by simp
    from read_csv_ok[OF this uc]
    have r2: "read_csv ?w1 (river @ ''_Cleaned.csv'') ccols = (Inr ?dfc,
        w\<lparr>opened := opened w @ [river @ ''_Raw.csv'', river @ ''_Cleaned.csv'']\<rparr>)"
      by simp
    show ?thesis
      unfolding load_data_try_def Let_def by (simp only: sr sc r1 r2 sum.case prod.case)
  qed
  have names_r: "map fst ?dfr = filter (\<lambda>n. n \<in> set rcols) (map fst rc)"
    by (rule names_selected)
  have names_c: "map fst ?dfc = filter (\<lambda>n. n \<in> set ccols) (map fst cc)"
    by (rule names_selected)
  have body: "load_data_body L ?dfr ?dfc =
     Inr (resampled_tuple L
       \<lparr>index_name = ''Timestamp'', index_vals = map (datetime_cell L) (map Text ts_r),
         columns = map (\<lambda>(n, v). (n, map (numeric_cell L) v))
                       (filter (\<lambda>(n, v). n \<noteq> ''time'') ?dfr)\<rparr>
       \<lparr>index_name = ''Timestamp'', index_vals = map (datetime_cell L) (map Text ts_c),
         columns = map (\<lambda>(n, v). (n, map (numeric_cell L) v))
                       (filter (\<lambda>(n, v). n \<noteq> ''Timestamp'') ?dfc)\<rparr>)"
  proof (rule load_data_body_ok)
    show "distinct (map fst ?dfr)" unfolding names_r using dr by simp
    show "distinct (map fst ?dfc)" unfolding names_c using dc by simp
    show "map_of ?dfr ''time'' = Some (map Text ts_r)"
      using tr rs(1) by (simp add: map_of_selected)
    show "map_of ?dfc ''Timestamp'' = Some (map Text ts_c)"
      using tc cs(1) by (simp add: map_of_selected)
    show "\<forall>c \<in> set (map fst ?dfr). time_like c \<longleftrightarrow> c = ''time''"
      unfolding names_r using rs(3) by simp
    show "''Timestamp'' \<notin> set (map fst ?dfr)"
      unfolding names_r using rs(2) by simp
  qed
  have "load_data L w river = (load_data_body L ?dfr ?dfc,
      w\<lparr>opened := opened w @ [river @ ''_Raw.csv'', river @ ''_Cleaned.csv'']\<rparr>)"
    unfolding load_data_def by (simp only: tried sum.case prod.case)
  also have "load_data_body L ?dfr ?dfc =
      Inr (resampled_tuple L (coerced_frame L rcols ''time'' ts_r rc)
                             (coerced_frame L ccols ''Timestamp'' ts_c cc))"
    unfolding body coerced_frame_def by (simp only: columns_selected map_map comp_def)
  finally show ?thesis using tr tc by blast
qed

lemma declared_cases:
  assumes "map_of custom_variables river = Some schemas" and "map_of schemas dataset = Some cols"
  shows "(river, dataset, cols) \<in>
           set (concat (map (\<lambda>(r, s). map (\<lambda>(d, c). (r, d, c)) s) custom_variables))"
  using assms by (auto simp: custom_variables_def split: if_splits)

text \<open>The index and the columns of the closed form.\<close>

lemma coerced_frame_index:
  "length (index_vals (coerced_frame L cols tcol ts csv)) = length ts"
  "\<forall>i < length ts. parse_datetime L (ts ! i) = None
       \<longrightarrow> index_vals (coerced_frame L cols tcol ts csv) ! i = NaT"
  by (simp_all add: coerced_frame_def)

lemma coerced_frame_names:
  "map fst (columns (coerced_frame L cols tcol ts csv))
     = filter (\<lambda>name. name \<in> set cols \<and> name \<noteq> tcol) (map fst csv)"
  unfolding coerced_frame_def by (induction csv) auto

lemma coerced_frame_cells:
  "\<forall>name v. (name, v) \<in> set csv \<and> name \<in> set cols \<and> name \<noteq> tcol \<longrightarrow>
     (\<exists>v'. (name, v') \<in> set (columns (coerced_frame L cols tcol ts csv))
         \<and> length v' = length v
         \<and> (\<forall>i < length v. parse_numeric L (v ! i) = None \<longrightarrow> v' ! i = NaN))"
proof (intro allI impI)
  fix name v
  assume a: "(name, v) \<in> set csv \<and> name \<in> set cols \<and> name \<noteq> tcol"
  let ?v' = "map (\<lambda>s. numeric_cell L (Text s)) v"
  from a have "(name, ?v') \<in> set (columns (coerced_frame L cols tcol ts csv))"
    by (force simp: coerced_frame_def)
  moreover have "length ?v' = length v" by simp
  moreover have "\<forall>i < length v. parse_numeric L (v ! i) = None \<longrightarrow> ?v' ! i = NaN"
    by simp
  ultimately show "\<exists>v'. (name, v') \<in> set (columns (coerced_frame L cols tcol ts csv))
            \<and> length v' = length v
            \<and> (\<forall>i < length v. parse_numeric L (v ! i) = None \<longrightarrow> v' ! i = NaN)"
    by blast
qed

text \<open>The example files for KualaSG hold exactly the declared columns, in declared order.\<close>

lemma kuala_schema:
  "schema_columns ''KualaSG'' ''raw'' = Inr (map fst kuala_raw_csv)"
  "schema_columns ''KualaSG'' ''cleaned'' = Inr (map fst kuala_cleaned_csv)"
  by (simp_all add: schema_columns_def dict_get_def custom_variables_def kuala_raw_csv_def
        kuala_cleaned_csv_def)

lemma kuala_files:
  "files world_kuala (''KualaSG'' @ ''_Raw.csv'') = Some kuala_raw_csv"
  "files world_kuala (''KualaSG'' @ ''_Cleaned.csv'') = Some kuala_cleaned_csv"
  by (simp_all add: world_kuala_def)

lemma kuala_headers:
  "distinct (map fst kuala_raw_csv)" "distinct (map fst kuala_cleaned_csv)"
  by (simp_all add: kuala_raw_csv_def kuala_cleaned_csv_def)

lemma kuala_time_columns:
  "map_of kuala_raw_csv ''time'' = Some [''2024-01-01'', ''soon'', ''2024-01-09'']"
  "map_of kuala_cleaned_csv ''Timestamp'' = Some [''2024-01-01'', ''2024-01-02'']"
  by (simp_all add: kuala_raw_csv_def kuala_cleaned_csv_def)

text \<open>The example directory for Kechau, and the loader when a file is missing.\<close>

lemma kechau_schema:
  "schema_columns ''Kechau'' ''raw'' = Inr (map fst kechau_raw_csv)"
  "schema_columns ''Kechau'' ''cleaned''
     = Inr [''Timestamp'', ''ORP_Sensor'', ''CT_Sensor'', ''TDS_Sensor'', ''NH_Sensor'']"
  by (simp_all add: schema_columns_def dict_get_def custom_variables_def kechau_raw_csv_def)

lemma kechau_files:
  "files world_kechau_no_cleaned (''Kechau'' @ ''_Raw.csv'') = Some kechau_raw_csv"
  "files world_kechau_no_cleaned (''Kechau'' @ ''_Cleaned.csv'') = None"
  by (simp_all add: world_kechau_no_cleaned_def)

lemma load_data_try_missing:
  assumes "schema_columns river ''raw'' = Inr rcols"
    and "schema_columns river ''cleaned'' = Inr ccols"
  shows "files w (river @ ''_Raw.csv'') = None \<Longrightarrow>
           load_data_try w river
             = (Inl (FileNotFoundError (river @ ''_Raw.csv'')) :: py_error + ('t, 'n) table \<times> ('t, 'n) table,
                w\<lparr>opened := opened w @ [river @ ''_Raw.csv'']\<rparr>)"
    and "files w (river @ ''_Raw.csv'') = Some rc \<Longrightarrow> set rcols \<subseteq> set (map fst rc) \<Longrightarrow>
         files w (river @ ''_Cleaned.csv'') = None \<Longrightarrow>
           load_data_try w river
             = (Inl (FileNotFoundError (river @ ''_Cleaned.csv'')) :: py_error + ('t, 'n) table \<times> ('t, 'n) table,
                w\<lparr>opened := opened w @ [river @ ''_Raw.csv'', river @ ''_Cleaned.csv'']\<rparr>)"
proof -
  show "load_data_try w river
             = (Inl (FileNotFoundError (river @ ''_Raw.csv'')) :: py_error + ('t, 'n) table \<times> ('t, 'n) table,
                w\<lparr>opened := opened w @ [river @ ''_Raw.csv'']\<rparr>)"
    if "files w (river @ ''_Raw.csv'') = None"
    using that assms(1) by (simp add: load_data_try_def read_csv_def Let_def)
next
  assume fr: "files w (river @ ''_Raw.csv'') = Some rc" and ur: "set rcols \<subseteq> set (map fst rc)"
    and fc: "files w (river @ ''_Cleaned.csv'') = None"
  have r1: "read_csv w (river @ ''_Raw.csv'') rcols
      = (Inr (map (\<lambda>(name, v). (name, map Text v))
                   (filter (\<lambda>(name, v). name \<in> set rcols) rc)) :: py_error + ('t, 'n) table,
         w\<lparr>opened := opened w @ [river @ ''_Raw.csv'']\<rparr>)"
    by (rule read_csv_ok[OF fr ur])
  have r2: "read_csv (w\<lparr>opened := opened w @ [river @ ''_Raw.csv'']\<rparr>) (river @ ''_Cleaned.csv'') ccols
      = (Inl (FileNotFoundError (river @ ''_Cleaned.csv'')) :: py_error + ('t, 'n) table,
         w\<lparr>opened := opened w @ [river @ ''_Raw.csv'', river @ ''_Cleaned.csv'']\<rparr>)"
    using fc by (simp add: read_csv_def)
  show "load_data_try w river
             = (Inl (FileNotFoundError (river @ ''_Cleaned.csv'')) :: py_error + ('t, 'n) table \<times> ('t, 'n) table,
                w\<lparr>opened := opened w @ [river @ ''_Raw.csv'', river @ ''_Cleaned.csv'']\<rparr>)"
    unfolding load_data_try_def Let_def
    by (simp only: assms r1 r2 sum.case prod.case)
qed

lemma load_data_missing:
  fixes L :: "('t, 'n) pandas"
  assumes "schema_columns river ''raw'' = Inr rcols"
    and "schema_columns river ''cleaned'' = Inr ccols"
  shows "files w (river @ ''_Raw.csv'') = None \<Longrightarrow>
           load_data L w river
             = (Inr [None, None],
                print ''Ensure CSV files are available in the correct directory!''
                  (print (''Error: '' @ errno2 (river @ ''_Raw.csv''))
                     (w\<lparr>opened := opened w @ [river @ ''_Raw.csv'']\<rparr>)))"
    and "files w (river @ ''_Raw.csv'') = Some rc \<Longrightarrow> set rcols \<subseteq> set (map fst rc) \<Longrightarrow>
         files w (river @ ''_Cleaned.csv'') = None \<Longrightarrow>
           load_data L w river
             = (Inr [None, None],
                print ''Ensure CSV files are available in the correct directory!''
                  (print (''Error: '' @ errno2 (river @ ''_Cleaned.csv''))
                     (w\<lparr>opened := opened w @ [river @ ''_Raw.csv'', river @ ''_Cleaned.csv'']\<rparr>)))"
  unfolding load_data_def
  by (simp_all only: load_data_try_missing[OF assms] sum.case prod.case py_error.case)

subsection \<open>The parameter callback\<close>

text \<open>
  Claim C4. For every declared entity and dataset kind, \<^verbatim>\<open>update_parameter_options\<close>
  returns exactly the declared columns of that entity and dataset except the time column
  (the columns whose name does not contain "time"), in declared order, each as label and
  value; a value that is not in this list, such as one left over from a previous
  selection, is not among the options.
\<close>

theorem C4_parameter_options:
  assumes "map_of custom_variables river = Some schemas"
    and "map_of schemas dataset = Some cols"
  shows "update_parameter_options river dataset
           = Inr (map (\<lambda>p. (p, p)) (filter (\<lambda>c. \<not> time_like c) cols))
         \<and> (\<forall>opts v. update_parameter_options river dataset = Inr opts
                \<and> v \<notin> set (filter (\<lambda>c. \<not> time_like c) cols)
              \<longrightarrow> v \<notin> snd ` set opts)"
proof -
  have upo: "update_parameter_options river dataset = Inr (map (\<lambda>p. (p, p)) (drop 1 cols))"
    using assms by (simp add: update_parameter_options_def schema_columns_def dict_get_def)
  have "filter (\<lambda>c. \<not> time_like c) cols = drop 1 cols"
    using declared_cases[OF assms] by (auto simp: custom_variables_def time_like_names)
  with upo show ?thesis by (auto simp: image_iff)
qed

text \<open>The options of Kechau's cleaned dataset; \<^verbatim>\<open>DO_Sensor\<close>, a parameter of Kechau's raw
  dataset, is not among them.\<close>

theorem C4_parameter_options_witness:
  "update_parameter_options ''Kechau'' ''cleaned''
     = Inr [(''ORP_Sensor'', ''ORP_Sensor''), (''CT_Sensor'', ''CT_Sensor''),
            (''TDS_Sensor'', ''TDS_Sensor''), (''NH_Sensor'', ''NH_Sensor'')]
   \<and> ''DO_Sensor'' \<notin> snd ` set [(''ORP_Sensor'', ''ORP_Sensor''), (''CT_Sensor'', ''CT_Sensor''),
            (''TDS_Sensor'', ''TDS_Sensor''), (''NH_Sensor'', ''NH_Sensor'')]"
proof -
  have a: "map_of custom_variables ''Kechau''
     = Some [(''raw'', [''time'', ''Ph_Sensor'', ''ORP_Sensor'', ''CT_Sensor'', ''TDS_Sensor'',
                    ''NH_Sensor'', ''DO_Sensor'', ''TR_Sensor'', ''BOD_Sensor'', ''COD_Sensor'']),
         (''cleaned'', [''Timestamp'', ''ORP_Sensor'', ''CT_Sensor'', ''TDS_Sensor'',
                        ''NH_Sensor''])]"
    by (simp add: custom_variables_def)
  have b: "map_of [(''raw'', [''time'', ''Ph_Sensor'', ''ORP_Sensor'', ''CT_Sensor'', ''TDS_Sensor'',
                    ''NH_Sensor'', ''DO_Sensor'', ''TR_Sensor'', ''BOD_Sensor'', ''COD_Sensor'']),
         (''cleaned'', [''Timestamp'', ''ORP_Sensor'', ''CT_Sensor'', ''TDS_Sensor'',
                        ''NH_Sensor''])] ''cleaned''
       = Some [''Timestamp'', ''ORP_Sensor'', ''CT_Sensor'', ''TDS_Sensor'', ''NH_Sensor'']"
    by simp
  from C4_parameter_options[OF a b] show ?thesis
    by (simp add: time_like_names)
qed

text \<open>
  Claim C10. For every entity of the declared configuration and each of the dataset
  kinds raw and cleaned, both lookups of \<^verbatim>\<open>update_parameter_options\<close> succeed, the
  declared list has at least two entries, and the option list, one shorter, is not empty.
\<close>

theorem C10_options_nonempty:
  assumes "river \<in> set (map fst custom_variables)" and "dataset \<in> {''raw'', ''cleaned''}"
  shows "\<exists>cols opts. schema_columns river dataset = Inr cols \<and> 2 \<le> length cols
           \<and> update_parameter_options river dataset = Inr opts
           \<and> length opts = length cols - 1 \<and> opts \<noteq> []"
  using assms
  by (auto simp: custom_variables_def update_parameter_options_def schema_columns_def
        dict_get_def)

theorem C10_options_nonempty_witness:
  "\<exists>cols opts. schema_columns ''Bilut'' ''cleaned'' = Inr cols \<and> 2 \<le> length cols
           \<and> update_parameter_options ''Bilut'' ''cleaned'' = Inr opts
           \<and> length opts = length cols - 1 \<and> opts \<noteq> []"
  by (rule C10_options_nonempty) (simp_all add: custom_variables_def)

subsection \<open>The display callback before the first trigger\<close>

text \<open>
  Claim C7. While the button has zero activations, \<^verbatim>\<open>update_content\<close> returns the fixed
  placeholder text whatever the selectors hold, and the world is as before: no file was
  handed to \<^verbatim>\<open>read_csv\<close> and nothing was printed, so the loader did not run.
\<close>

theorem C7_placeholder_before_trigger:
  "update_content L w 0 river dataset visualization granularity parameter
     = (Inr (Div ''Click 'Display Data' to show the results.''), w)"
  by (simp add: update_content_def)

subsection \<open>The trend view\<close>

text \<open>
  Claim C5. When the button was pressed and both files of the entity load, the trend
  view plots the table that \<^verbatim>\<open>resample\<close> makes of the raw table, under the rule of the
  chosen granularity (D for daily, W for weekly, ME for monthly), with that table's index
  on the x axis. The dataset selector does not occur in the result: it is the same for
  raw and for cleaned, and for every parameter.
\<close>

theorem C5_trend_reads_raw_resample:
  fixes L :: "('t, 'n) pandas"
  assumes "n_clicks \<noteq> 0"
    and "schema_columns river ''raw'' = Inr rcols"
    and "schema_columns river ''cleaned'' = Inr ccols"
    and "files w (river @ ''_Raw.csv'') = Some rc"
    and "files w (river @ ''_Cleaned.csv'') = Some cc"
    and "set rcols \<subseteq> set (map fst rc)" and "set ccols \<subseteq> set (map fst cc)"
    and "distinct (map fst rc)" and "distinct (map fst cc)"
    and "map_of rc ''time'' = Some ts"
    and "(granularity, rule) \<in> {(''daily'', ''D''), (''weekly'', ''W''), (''monthly'', ''ME'')}"
  shows "fst (update_content L w n_clicks river dataset ''trend'' granularity parameter)
         = (let df_trend = resample_mean L rule (coerced_frame L rcols ''time'' ts rc)
            in Inr (Graph (Line df_trend (index_vals df_trend) parameter)))"
proof -
  from load_data_ok[OF assms(2-9), of L] assms(10)
  obtain ts_c where ld: "load_data L w river =
             (Inr (resampled_tuple L (coerced_frame L rcols ''time'' ts rc)
                                     (coerced_frame L ccols ''Timestamp'' ts_c cc)),
              w\<lparr>opened := opened w @ [river @ ''_Raw.csv'', river @ ''_Cleaned.csv'']\<rparr>)"
    by auto
  from assms(11) consider "granularity = ''daily'' \<and> rule = ''D''"
    | "granularity = ''weekly'' \<and> rule = ''W''" | "granularity = ''monthly'' \<and> rule = ''ME''"
    by auto
  then show ?thesis
    using assms(1)
    by cases (simp_all add: update_content_def ld resampled_tuple_def unpack8_def render_def
        dict_get_def Let_def)
qed

text \<open>On the example files, with the cleaned dataset selected, the weekly trend is drawn
  from the weekly resampling of the raw table (nine columns, three rows).\<close>

theorem C5_trend_reads_raw_resample_witness:
  "fst (update_content example_pandas world_kuala 1 ''KualaSG'' ''cleaned'' ''trend'' ''weekly''
          (Some ''PH_Sensor''))
   = Inr (Graph (Line
       \<lparr>index_name = ''Timestamp/W'', index_vals = [Stamp 0, NaT, Stamp 8],
         columns = [(''PH_Sensor'', [Num 7, Num 8, Num 7]),
                    (''ORP_Sensor'', [Num 250, NaN, Num 250]),
                    (''TR_Sensor'', [Num 7, Num 7, Num 8]),
                    (''CT_Sensor'', [Num 8, Num 8, Num 8]),
                    (''TDS_Sensor'', [Num 250, Num 250, Num 7]),
                    (''NH_SEnsor'', [Num 7, NaN, Num 7]),
                    (''DO_Sensor'', [Num 8, Num 7, Num 7]),
                    (''COD_Sensor'', [Num 7, Num 8, Num 8]),
                    (''BOD_Sensor'', [Num 8, Num 8, Num 7])]\<rparr>
       [Stamp 0, NaT, Stamp 8] (Some ''PH_Sensor'')))"
proof -
  have n: "(1::int) \<noteq> 0" by simp
  have g: "(''weekly'', ''W'') \<in> {(''daily'', ''D''), (''weekly'', ''W''), (''monthly'', ''ME'')}"
    by simp
  show ?thesis
    using C5_trend_reads_raw_resample[where L = example_pandas and dataset = "''cleaned''"
        and parameter = "Some ''PH_Sensor''", OF n kuala_schema kuala_files subset_refl
        subset_refl kuala_headers kuala_time_columns(1) g]
    by (simp add: coerced_frame_def example_pandas_def kuala_raw_csv_def Let_def)
qed

subsection \<open>Coercion and renaming in the loader\<close>

text \<open>
  Claim C8. When both files of a declared entity are there with their declared columns,
  \<^verbatim>\<open>load_data\<close> returns (no exception), and in both loaded tables every row is kept: the
  Timestamp index is as long as the time column of the file and each loaded column as
  long as the column of the file. A time stamp that the date parser rejects is \<open>NaT\<close> at
  its row, and a field of any other column that the number parser rejects is \<open>NaN\<close> at
  its row. The loaded columns are the declared columns of the file other than the time
  column, in file order.
\<close>

theorem C8_coercion_is_lenient:
  fixes L :: "('t, 'n) pandas"
  assumes "schema_columns river ''raw'' = Inr rcols"
    and "schema_columns river ''cleaned'' = Inr ccols"
    and "files w (river @ ''_Raw.csv'') = Some rc"
    and "files w (river @ ''_Cleaned.csv'') = Some cc"
    and "set rcols \<subseteq> set (map fst rc)" and "set ccols \<subseteq> set (map fst cc)"
    and "distinct (map fst rc)" and "distinct (map fst cc)"
    and "map_of rc ''time'' = Some ts_r" and "map_of cc ''Timestamp'' = Some ts_c"
  shows "\<exists>df_raw df_cleaned rest.
      fst (load_data L w river) = Inr (Some df_raw # Some df_cleaned # rest)
    \<and> length (index_vals df_raw) = length ts_r
    \<and> (\<forall>i < length ts_r. parse_datetime L (ts_r ! i) = None \<longrightarrow> index_vals df_raw ! i = NaT)
    \<and> length (index_vals df_cleaned) = length ts_c
    \<and> (\<forall>i < length ts_c. parse_datetime L (ts_c ! i) = None
           \<longrightarrow> index_vals df_cleaned ! i = NaT)
    \<and> map fst (columns df_raw) = filter (\<lambda>name. name \<in> set rcols \<and> name \<noteq> ''time'') (map fst rc)
    \<and> map fst (columns df_cleaned)
        = filter (\<lambda>name. name \<in> set ccols \<and> name \<noteq> ''Timestamp'') (map fst cc)
    \<and> (\<forall>name v. (name, v) \<in> set rc \<and> name \<in> set rcols \<and> name \<noteq> ''time'' \<longrightarrow>
          (\<exists>v'. (name, v') \<in> set (columns df_raw) \<and> length v' = length v
              \<and> (\<forall>i < length v. parse_numeric L (v ! i) = None \<longrightarrow> v' ! i = NaN)))
    \<and> (\<forall>name v. (name, v) \<in> set cc \<and> name \<in> set ccols \<and> name \<noteq> ''Timestamp'' \<longrightarrow>
          (\<exists>v'. (name, v') \<in> set (columns df_cleaned) \<and> length v' = length v
              \<and> (\<forall>i < length v. parse_numeric L (v ! i) = None \<longrightarrow> v' ! i = NaN)))"
proof -
  define R where "R = coerced_frame L rcols ''time'' ts_r rc"
  define C where "C = coerced_frame L ccols ''Timestamp'' ts_c cc"
  from load_data_ok[OF assms(1-8), of L] assms(9,10)
  have "fst (load_data L w river) = Inr (resampled_tuple L R C)"
    unfolding R_def C_def by auto
  then have ld: "fst (load_data L w river) = Inr (Some R # Some C # drop 2 (resampled_tuple L R C))"
    by (simp add: resampled_tuple_def Let_def)
  have r1: "length (index_vals R) = length ts_r"
    and r2: "\<forall>i < length ts_r. parse_datetime L (ts_r ! i) = None \<longrightarrow> index_vals R ! i = NaT"
    and r3: "map fst (columns R)
               = filter (\<lambda>name. name \<in> set rcols \<and> name \<noteq> ''time'') (map fst rc)"
    and r4: "\<forall>name v. (name, v) \<in> set rc \<and> name \<in> set rcols \<and> name \<noteq> ''time'' \<longrightarrow>
          (\<exists>v'. (name, v') \<in> set (columns R) \<and> length v' = length v
              \<and> (\<forall>i < length v. parse_numeric L (v ! i) = None \<longrightarrow> v' ! i = NaN))"
    unfolding R_def
    by (rule coerced_frame_index coerced_frame_names coerced_frame_cells)+
  have c1: "length (index_vals C) = length ts_c"
    and c2: "\<forall>i < length ts_c. parse_datetime L (ts_c ! i) = None \<longrightarrow> index_vals C ! i = NaT"
    and c3: "map fst (columns C)
               = filter (\<lambda>name. name \<in> set ccols \<and> name \<noteq> ''Timestamp'') (map fst cc)"
    and c4: "\<forall>name v. (name, v) \<in> set cc \<and> name \<in> set ccols \<and> name \<noteq> ''Timestamp'' \<longrightarrow>
          (\<exists>v'. (name, v') \<in> set (columns C) \<and> length v' = length v
              \<and> (\<forall>i < length v. parse_numeric L (v ! i) = None \<longrightarrow> v' ! i = NaN))"
    unfolding C_def
    by (rule coerced_frame_index coerced_frame_names coerced_frame_cells)+
  show ?thesis
    by (rule exI[of _ R], rule exI[of _ C], rule exI[of _ "drop 2 (resampled_tuple L R C)"],
        intro conjI) (fact ld r1 r2 r3 r4 c1 c2 c3 c4)+
qed

text \<open>The theorem at the example files for KualaSG, whose raw file has a time stamp
  (\<^verbatim>\<open>soon\<close>) and two fields that do not parse.\<close>

theorem C8_coercion_is_lenient_witness:
  "\<exists>df_raw df_cleaned rest.
      fst (load_data example_pandas world_kuala ''KualaSG'')
        = Inr (Some df_raw # Some df_cleaned # rest)
    \<and> length (index_vals df_raw) = length [''2024-01-01'', ''soon'', ''2024-01-09'']
    \<and> (\<forall>i < length [''2024-01-01'', ''soon'', ''2024-01-09''].
          parse_datetime example_pandas ([''2024-01-01'', ''soon'', ''2024-01-09''] ! i) = None
          \<longrightarrow> index_vals df_raw ! i = NaT)
    \<and> length (index_vals df_cleaned) = length [''2024-01-01'', ''2024-01-02'']
    \<and> (\<forall>i < length [''2024-01-01'', ''2024-01-02''].
          parse_datetime example_pandas ([''2024-01-01'', ''2024-01-02''] ! i) = None
          \<longrightarrow> index_vals df_cleaned ! i = NaT)
    \<and> map fst (columns df_raw)
        = filter (\<lambda>name. name \<in> set (map fst kuala_raw_csv) \<and> name \<noteq> ''time'')
            (map fst kuala_raw_csv)
    \<and> map fst (columns df_cleaned)
        = filter (\<lambda>name. name \<in> set (map fst kuala_cleaned_csv) \<and> name \<noteq> ''Timestamp'')
            (map fst kuala_cleaned_csv)
    \<and> (\<forall>name v. (name, v) \<in> set kuala_raw_csv \<and> name \<in> set (map fst kuala_raw_csv)
             \<and> name \<noteq> ''time'' \<longrightarrow>
          (\<exists>v'. (name, v') \<in> set (columns df_raw) \<and> length v' = length v
              \<and> (\<forall>i < length v. parse_numeric example_pandas (v ! i) = None \<longrightarrow> v' ! i = NaN)))
    \<and> (\<forall>name v. (name, v) \<in> set kuala_cleaned_csv \<and> name \<in> set (map fst kuala_cleaned_csv)
             \<and> name \<noteq> ''Timestamp'' \<longrightarrow>
          (\<exists>v'. (name, v') \<in> set (columns df_cleaned) \<and> length v' = length v
              \<and> (\<forall>i < length v. parse_numeric example_pandas (v ! i) = None \<longrightarrow> v' ! i = NaN)))"
  by (rule C8_coercion_is_lenient[where L = example_pandas, OF kuala_schema kuala_files
        subset_refl subset_refl kuala_headers kuala_time_columns])

text \<open>
  Claim C9. After a load, the only name containing "time" (in any case) in the raw and
  in the cleaned table is Timestamp, the name of the index: no column keeps such a name.
  Line 37 renames in the raw table; the declared cleaned columns already call their time
  column Timestamp, and \<^verbatim>\<open>usecols\<close> lets no other column in. The raw file's column
  \<^verbatim>\<open>time\<close> is the one now called Timestamp, and the date coercion of line 39, which
  asks for the column by the new name, found it: the index holds the date coercion of
  that column's texts. So the renaming ran before the coercion.
\<close>

theorem C9_time_column_renamed:
  fixes L :: "('t, 'n) pandas"
  assumes "schema_columns river ''raw'' = Inr rcols"
    and "schema_columns river ''cleaned'' = Inr ccols"
    and "files w (river @ ''_Raw.csv'') = Some rc"
    and "files w (river @ ''_Cleaned.csv'') = Some cc"
    and "set rcols \<subseteq> set (map fst rc)" and "set ccols \<subseteq> set (map fst cc)"
    and "distinct (map fst rc)" and "distinct (map fst cc)"
    and "map_of rc ''time'' = Some ts_r"
  shows "\<exists>df_raw df_cleaned rest.
      fst (load_data L w river) = Inr (Some df_raw # Some df_cleaned # rest)
    \<and> index_name df_raw = ''Timestamp'' \<and> index_name df_cleaned = ''Timestamp''
    \<and> index_vals df_raw = to_datetime_coerce L (map Text ts_r)
    \<and> (\<forall>name \<in> set (map fst (columns df_raw)) \<union> set (map fst (columns df_cleaned)).
          \<not> time_like name)"
proof -
  from load_data_ok[OF assms(1-8), of L] assms(9)
  obtain ts_c where
    "fst (load_data L w river) = Inr (resampled_tuple L (coerced_frame L rcols ''time'' ts_r rc)
                             (coerced_frame L ccols ''Timestamp'' ts_c cc))"
    by auto
  then have ld: "fst (load_data L w river) =
      Inr (Some (coerced_frame L rcols ''time'' ts_r rc)
           # Some (coerced_frame L ccols ''Timestamp'' ts_c cc)
           # drop 2 (resampled_tuple L (coerced_frame L rcols ''time'' ts_r rc)
                             (coerced_frame L ccols ''Timestamp'' ts_c cc)))"
    by (simp add: resampled_tuple_def Let_def)
  have n1: "index_name (coerced_frame L rcols ''time'' ts_r rc) = ''Timestamp''"
    and n2: "index_name (coerced_frame L ccols ''Timestamp'' ts_c cc) = ''Timestamp''"
    and iv: "index_vals (coerced_frame L rcols ''time'' ts_r rc) = to_datetime_coerce L (map Text ts_r)"
    by (simp_all add: coerced_frame_def to_datetime_coerce_def comp_def)
  have nr: "\<forall>name \<in> set (map fst (columns (coerced_frame L rcols ''time'' ts_r rc))). \<not> time_like name"
    unfolding coerced_frame_names using raw_schema(3)[OF assms(1)] by auto
  have nc: "\<forall>name \<in> set (map fst (columns (coerced_frame L ccols ''Timestamp'' ts_c cc))).
              \<not> time_like name"
    unfolding coerced_frame_names using cleaned_schema(2)[OF assms(2)] by auto
  from nr nc have nn: "\<forall>name \<in> set (map fst (columns (coerced_frame L rcols ''time'' ts_r rc)))
           \<union> set (map fst (columns (coerced_frame L ccols ''Timestamp'' ts_c cc))). \<not> time_like name"
    by blast
  show ?thesis
    by (intro exI conjI) (fact ld n1 n2 iv nn)+
qed

theorem C9_time_column_renamed_witness:
  "\<exists>df_raw df_cleaned rest.
      fst (load_data example_pandas world_kuala ''KualaSG'')
        = Inr (Some df_raw # Some df_cleaned # rest)
    \<and> index_name df_raw = ''Timestamp'' \<and> index_name df_cleaned = ''Timestamp''
    \<and> index_vals df_raw = [Stamp 0, NaT, Stamp 8]
    \<and> (\<forall>name \<in> set (map fst (columns df_raw)) \<union> set (map fst (columns df_cleaned)).
          \<not> time_like name)"
  using C9_time_column_renamed[where L = example_pandas, OF kuala_schema kuala_files
      subset_refl subset_refl kuala_headers kuala_time_columns(1)]
  by (simp add: to_datetime_coerce_def example_pandas_def)

subsection \<open>Missing files\<close>

text \<open>
  Claim C2, as the specification states it, fails: with \<^verbatim>\<open>Kechau_Raw.csv\<close> on disk and
  \<^verbatim>\<open>Kechau_Cleaned.csv\<close> absent, the loader returns the pair \<^verbatim>\<open>(None, None)\<close>, so the
  raw table is absent as well.
\<close>

theorem C2_counterexample:
  "files world_kechau_no_cleaned ''Kechau_Raw.csv'' = Some kechau_raw_csv
   \<and> files world_kechau_no_cleaned ''Kechau_Cleaned.csv'' = None
   \<and> fst (load_data example_pandas world_kechau_no_cleaned ''Kechau'') = Inr [None, None]"
  by (simp add: load_data_def load_data_try_def schema_columns_def dict_get_def
        custom_variables_def read_csv_def world_kechau_no_cleaned_def kechau_raw_csv_def
        print_def Let_def)

text \<open>
  Claim C2, amended. For every declared entity: when both files are there, each with its
  declared columns, \<^verbatim>\<open>load_data\<close> returns eight tables as one unit, the raw and the
  cleaned table and the daily, weekly and monthly resampling of each; when the raw file
  is missing, or the raw file is there with its declared columns and the cleaned file is
  missing, it returns no table of either dataset: the raw and the cleaned entry of the
  result are both \<^verbatim>\<open>None\<close>, and so is every other entry.
\<close>

theorem C2_eight_tables_or_none:
  fixes L :: "('t, 'n) pandas"
  assumes "schema_columns river ''raw'' = Inr rcols"
    and "schema_columns river ''cleaned'' = Inr ccols"
  shows "(\<forall>rc cc. files w (river @ ''_Raw.csv'') = Some rc
            \<and> files w (river @ ''_Cleaned.csv'') = Some cc
            \<and> set rcols \<subseteq> set (map fst rc) \<and> set ccols \<subseteq> set (map fst cc)
            \<and> distinct (map fst rc) \<and> distinct (map fst cc) \<longrightarrow>
          (\<exists>df_raw df_cleaned. fst (load_data L w river) =
             Inr [Some df_raw, Some df_cleaned,
                  Some (resample_mean L ''D'' df_raw), Some (resample_mean L ''W'' df_raw),
                  Some (resample_mean L ''ME'' df_raw),
                  Some (resample_mean L ''D'' df_cleaned), Some (resample_mean L ''W'' df_cleaned),
                  Some (resample_mean L ''ME'' df_cleaned)]))
       \<and> (files w (river @ ''_Raw.csv'') = None \<longrightarrow>
            (\<exists>tup. fst (load_data L w river) = Inr tup
               \<and> take 2 tup = [None, None] \<and> set tup \<subseteq> {None}))
       \<and> (\<forall>rc. files w (river @ ''_Raw.csv'') = Some rc \<and> set rcols \<subseteq> set (map fst rc)
            \<and> files w (river @ ''_Cleaned.csv'') = None \<longrightarrow>
            (\<exists>tup. fst (load_data L w river) = Inr tup
               \<and> take 2 tup = [None, None] \<and> set tup \<subseteq> {None}))"
proof (intro conjI allI impI)
  fix rc cc
  assume a: "files w (river @ ''_Raw.csv'') = Some rc
            \<and> files w (river @ ''_Cleaned.csv'') = Some cc
            \<and> set rcols \<subseteq> set (map fst rc) \<and> set ccols \<subseteq> set (map fst cc)
            \<and> distinct (map fst rc) \<and> distinct (map fst cc)"
  from a have "\<exists>ts_r ts_c. map_of rc ''time'' = Some ts_r \<and> map_of cc ''Timestamp'' = Some ts_c \<and>
           load_data L w river =
             (Inr (resampled_tuple L (coerced_frame L rcols ''time'' ts_r rc)
                                     (coerced_frame L ccols ''Timestamp'' ts_c cc)),
              w\<lparr>opened := opened w @ [river @ ''_Raw.csv'', river @ ''_Cleaned.csv'']\<rparr>)"
    by (intro load_data_ok[OF assms]) simp_all
  then obtain ts_r ts_c where "fst (load_data L w river) =
      Inr (resampled_tuple L (coerced_frame L rcols ''time'' ts_r rc)
                             (coerced_frame L ccols ''Timestamp'' ts_c cc))"
    by auto
  then show "\<exists>df_raw df_cleaned. fst (load_data L w river) =
             Inr [Some df_raw, Some df_cleaned,
                  Some (resample_mean L ''D'' df_raw), Some (resample_mean L ''W'' df_raw),
                  Some (resample_mean L ''ME'' df_raw),
                  Some (resample_mean L ''D'' df_cleaned), Some (resample_mean L ''W'' df_cleaned),
                  Some (resample_mean L ''ME'' df_cleaned)]"
    by (simp add: resampled_tuple_def Let_def)
next
  assume "files w (river @ ''_Raw.csv'') = None"
  from load_data_missing(1)[OF assms this, of L]
  show "\<exists>tup. fst (load_data L w river) = Inr tup
               \<and> take 2 tup = [None, None] \<and> set tup \<subseteq> {None}" by simp
next
  fix rc
  assume a: "files w (river @ ''_Raw.csv'') = Some rc \<and> set rcols \<subseteq> set (map fst rc)
            \<and> files w (river @ ''_Cleaned.csv'') = None"
  then have f1: "files w (river @ ''_Raw.csv'') = Some rc"
    and f2: "set rcols \<subseteq> set (map fst rc)"
    and f3: "files w (river @ ''_Cleaned.csv'') = None"
    by auto
  have "load_data L w river
             = (Inr [None, None],
                print ''Ensure CSV files are available in the correct directory!''
                  (print (''Error: '' @ errno2 (river @ ''_Cleaned.csv''))
                     (w\<lparr>opened := opened w @ [river @ ''_Raw.csv'', river @ ''_Cleaned.csv'']\<rparr>)))"
    by (rule load_data_missing(2)[OF assms f1 f2 f3])
  then show "\<exists>tup. fst (load_data L w river) = Inr tup
               \<and> take 2 tup = [None, None] \<and> set tup \<subseteq> {None}" by simp
qed

text \<open>Both cases on the example directories: KualaSG with both files, Kechau with the
  raw file only.\<close>

theorem C2_eight_tables_or_none_witness:
  "(\<exists>df_raw df_cleaned. fst (load_data example_pandas world_kuala ''KualaSG'') =
       Inr [Some df_raw, Some df_cleaned,
            Some (resample_mean example_pandas ''D'' df_raw),
            Some (resample_mean example_pandas ''W'' df_raw),
            Some (resample_mean example_pandas ''ME'' df_raw),
            Some (resample_mean example_pandas ''D'' df_cleaned),
            Some (resample_mean example_pandas ''W'' df_cleaned),
            Some (resample_mean example_pandas ''ME'' df_cleaned)])
   \<and> (\<exists>tup. fst (load_data example_pandas world_kechau_no_cleaned ''Kechau'') = Inr tup
          \<and> take 2 tup = [None, None] \<and> set tup \<subseteq> {None})"
proof
  have h: "files world_kuala (''KualaSG'' @ ''_Raw.csv'') = Some kuala_raw_csv
            \<and> files world_kuala (''KualaSG'' @ ''_Cleaned.csv'') = Some kuala_cleaned_csv
            \<and> set (map fst kuala_raw_csv) \<subseteq> set (map fst kuala_raw_csv)
            \<and> set (map fst kuala_cleaned_csv) \<subseteq> set (map fst kuala_cleaned_csv)
            \<and> distinct (map fst kuala_raw_csv) \<and> distinct (map fst kuala_cleaned_csv)"
    by (intro conjI kuala_files kuala_headers subset_refl)
  from C2_eight_tables_or_none[where L = example_pandas and w = world_kuala, OF kuala_schema,
      THEN conjunct1, rule_format, OF h]
  show "\<exists>df_raw df_cleaned. fst (load_data example_pandas world_kuala ''KualaSG'') =
       Inr [Some df_raw, Some df_cleaned,
            Some (resample_mean example_pandas ''D'' df_raw),
            Some (resample_mean example_pandas ''W'' df_raw),
            Some (resample_mean example_pandas ''ME'' df_raw),
            Some (resample_mean example_pandas ''D'' df_cleaned),
            Some (resample_mean example_pandas ''W'' df_cleaned),
            Some (resample_mean example_pandas ''ME'' df_cleaned)]" .
next
  have h: "files world_kechau_no_cleaned (''Kechau'' @ ''_Raw.csv'') = Some kechau_raw_csv
            \<and> set (map fst kechau_raw_csv) \<subseteq> set (map fst kechau_raw_csv)
            \<and> files world_kechau_no_cleaned (''Kechau'' @ ''_Cleaned.csv'') = None"
    by (intro conjI kechau_files subset_refl)
  from C2_eight_tables_or_none[where L = example_pandas and w = world_kechau_no_cleaned,
      OF kechau_schema, THEN conjunct2, THEN conjunct2, rule_format, OF h]
  show "\<exists>tup. fst (load_data example_pandas world_kechau_no_cleaned ''Kechau'') = Inr tup
          \<and> take 2 tup = [None, None] \<and> set tup \<subseteq> {None}" .
qed

text \<open>
  Claim C1 at a failing input. With \<^verbatim>\<open>Kechau_Cleaned.csv\<close> missing, \<^verbatim>\<open>load_data\<close> prints
  its two diagnostic lines and returns the pair \<^verbatim>\<open>(None, None)\<close>; \<^verbatim>\<open>update_content\<close>,
  triggered once, unpacks that pair into eight names and leaves with the ValueError of
  line 156 instead of rendering anything. The same unpacking at line 64 stops the module
  from loading when the files of the default river are missing.
\<close>

theorem C1_missing_file_raises_on_display:
  "fst (load_data example_pandas world_kechau_no_cleaned ''Kechau'') = Inr [None, None]
   \<and> stdout (snd (load_data example_pandas world_kechau_no_cleaned ''Kechau''))
       = [''Error: '' @ errno2 ''Kechau_Cleaned.csv'',
          ''Ensure CSV files are available in the correct directory!'']
   \<and> fst (update_content example_pandas world_kechau_no_cleaned 1 ''Kechau'' ''raw'' ''table''
            ''daily'' None)
       = Inl (ValueError (Unpack 8 2))
   \<and> fst (module_init example_pandas world_empty) = Inl (ValueError (Unpack 8 2))"
  by (simp add: update_content_def module_init_def selected_river_def unpack8_def
        load_data_def load_data_try_def schema_columns_def dict_get_def
        custom_variables_def read_csv_def world_kechau_no_cleaned_def world_empty_def
        kechau_raw_csv_def print_def Let_def)

subsection \<open>The table view\<close>

text \<open>
  Claim C3 at a failing input. For KualaSG, dataset raw and visualization table, on the
  example files: the records handed to the data table carry the Timestamp (they come from
  \<^verbatim>\<open>df.reset_index()\<close>), one record per line of the raw file, but the column
  descriptions come from \<^verbatim>\<open>df.columns\<close> of the indexed table and list the nine sensor
  columns only. Timestamp is not a column of the grid.
\<close>

theorem C3_table_columns_omit_timestamp:
  "fst (update_content example_pandas world_kuala 1 ''KualaSG'' ''raw'' ''table'' ''daily'' None)
   = Inr (DataTable
       [[(''Timestamp'', Stamp 0), (''PH_Sensor'', Num 7), (''ORP_Sensor'', Num 250),
         (''TR_Sensor'', Num 7), (''CT_Sensor'', Num 8), (''TDS_Sensor'', Num 250),
         (''NH_SEnsor'', Num 7), (''DO_Sensor'', Num 8), (''COD_Sensor'', Num 7),
         (''BOD_Sensor'', Num 8)],
        [(''Timestamp'', NaT), (''PH_Sensor'', Num 8), (''ORP_Sensor'', NaN),
         (''TR_Sensor'', Num 7), (''CT_Sensor'', Num 8), (''TDS_Sensor'', Num 250),
         (''NH_SEnsor'', NaN), (''DO_Sensor'', Num 7), (''COD_Sensor'', Num 8),
         (''BOD_Sensor'', Num 8)],
        [(''Timestamp'', Stamp 8), (''PH_Sensor'', Num 7), (''ORP_Sensor'', Num 250),
         (''TR_Sensor'', Num 8), (''CT_Sensor'', Num 8), (''TDS_Sensor'', Num 7),
         (''NH_SEnsor'', Num 7), (''DO_Sensor'', Num 7), (''COD_Sensor'', Num 8),
         (''BOD_Sensor'', Num 7)]]
       [(''PH_Sensor'', ''PH_Sensor''), (''ORP_Sensor'', ''ORP_Sensor''),
        (''TR_Sensor'', ''TR_Sensor''), (''CT_Sensor'', ''CT_Sensor''),
        (''TDS_Sensor'', ''TDS_Sensor''), (''NH_SEnsor'', ''NH_SEnsor''),
        (''DO_Sensor'', ''DO_Sensor''), (''COD_Sensor'', ''COD_Sensor''),
        (''BOD_Sensor'', ''BOD_Sensor'')])"
  by code_simp

end
